theory Spec2Isabelle
  imports Main
begin

section \<open>The Verisure client: a shallow embedding of \<open>verisure.go\<close>\<close>

text \<open>
  \<open>src/verisure.go\<close> holds two texts of package \<open>verisure\<close> and the command that uses it.
  The second text (lines 304-623) keeps the installation identifier in the string field
  \<open>giid\<close>; the first text (lines 1-303) keeps a slice \<open>installations\<close> and reads its
  element 0. The second text is embedded under the source's names; the parts of the first
  text that are needed carry the suffix \<open>_1\<close>.

  The calls that leave the package are modelled as follows.
  \<^item> \<open>url.Parse\<close> (inside \<open>http.NewRequest\<close>), \<open>json.Marshal\<close>, \<open>strconv.ParseFloat\<close>
    (by which the JSON decoder converts a number) and the decoding of a body into the
    \<open>Overview\<close> struct are parameters, collected in the record \<open>lib\<close>.
  \<^item> \<open>http.Client.Do\<close> is a function of the requests sent so far and of the request: the
    field \<open>respond\<close> of the client. The client records every request handed to it in the
    field \<open>sent\<close>, so that what an operation puts on the wire can be stated. The cookie
    jar is part of what \<open>respond\<close> may depend on through the history.
  \<^item> The context argument only cancels a request; a cancelled request is one of the
    errors \<open>respond\<close> may return.
\<close>

subsection \<open>Data\<close>

text \<open>A JSON document. A number is kept as its literal. An object keeps its members in
  the order of the text, duplicates included.\<close>

datatype json =
    JNull
  | JBool bool
  | JNumber string
  | JString string
  | JArray "json list"
  | JObject "(string \<times> json) list"

text \<open>Go's \<open>error\<close> values. \<open>LibError\<close> is an error made by a library call;
  \<open>StatusError p c s\<close> is \<open>fmt.Errorf("p: %d %s", c, s)\<close>; \<open>Errorf m\<close> is
  \<open>fmt.Errorf(m)\<close> for a constant text; \<open>UnmarshalTypeError k\<close> is what the JSON decoder
  reports for a value of JSON kind \<open>k\<close> that does not fit the Go type.\<close>

datatype error =
    LibError string
  | UnmarshalTypeError string
  | StatusError string int string
  | Errorf string

text \<open>A value of a Go function that may panic.\<close>

datatype 'a go = Return 'a | Panic string

record request =
  Method :: string
  URL :: string
  Header :: "(string \<times> string) list"
  BasicAuth :: "(string \<times> string) option"
  Content :: "string option"

text \<open>A response: \<open>Body\<close> is the first JSON value of the body stream as the JSON grammar
  reads it, \<open>Inl\<close> when the bytes cannot be read or are not JSON text. What the decoder
  of \<open>encoding/json\<close> refuses beyond the grammar (nesting deeper than its limit, a number
  that does not convert) is decided in \<open>Decode_result\<close>.\<close>

record response =
  StatusCode :: int
  Status :: string
  Body :: "error + json"

record http_Client =
  respond :: "request list \<Rightarrow> request \<Rightarrow> error + response"
  sent :: "request list"

record SmartPlugState =
  DeviceLabel :: string
  State :: bool

record 'o lib =
  url_Parse :: "string \<Rightarrow> error option"
  json_Marshal :: "SmartPlugState list \<Rightarrow> error + string"
  strconv_ParseFloat :: "string \<Rightarrow> error option"
  Overview_zero :: 'o
  Overview_Unmarshal :: "json \<Rightarrow> 'o \<times> error option"

record Verisure =
  baseURL :: string
  giid :: string
  client :: http_Client

definition mediaType :: string where
  "mediaType = ''application/json''"

definition apiURLs :: "string list" where
  "apiURLs = [''https://e-api01.verisure.com/xbn/2'', ''https://e-api02.verisure.com/xbn/2'']"

subsection \<open>Requests and the transport\<close>

text \<open>\<open>http.NewRequest\<close> fails when the method is not a token or the URL does not parse.
  The package only passes \<open>http.MethodGet\<close>, \<open>http.MethodPost\<close> and
  \<open>http.MethodDelete\<close>, so the URL decides.\<close>

definition http_NewRequest :: "'o lib \<Rightarrow> string \<Rightarrow> string \<Rightarrow> string option \<Rightarrow> error + request" where
  "http_NewRequest L method url body =
     (case url_Parse L url of
        Some err \<Rightarrow> Inl err
      | None \<Rightarrow> Inr \<lparr>Method = method, URL = url, Header = [], BasicAuth = None, Content = body\<rparr>)"

definition Header_Add :: "request \<Rightarrow> string \<Rightarrow> string \<Rightarrow> request" where
  "Header_Add req k v = req\<lparr>Header := Header req @ [(k, v)]\<rparr>"

definition SetBasicAuth :: "request \<Rightarrow> string \<Rightarrow> string \<Rightarrow> request" where
  "SetBasicAuth req username password = req\<lparr>BasicAuth := Some (username, password)\<rparr>"

definition newRequest :: "'o lib \<Rightarrow> string \<Rightarrow> string \<Rightarrow> string option \<Rightarrow> error + request" where
  "newRequest L method url body =
     (case http_NewRequest L method url body of
        Inl err \<Rightarrow> Inl err
      | Inr req \<Rightarrow> Inr (Header_Add (Header_Add req ''Accept'' mediaType) ''Content-Type'' mediaType))"

definition Do :: "http_Client \<Rightarrow> request \<Rightarrow> (error + response) \<times> http_Client" where
  "Do c req = (respond c (sent c) req, c\<lparr>sent := sent c @ [req]\<rparr>)"

subsection \<open>Constructors\<close>

text \<open>\<open>cookiejar.New(nil)\<close> returns no error, so \<open>log.Fatal\<close> is not reached. The
  argument is the network the new client talks to.\<close>

definition New :: "(request list \<Rightarrow> request \<Rightarrow> error + response) \<Rightarrow> Verisure" where
  "New net = \<lparr>baseURL = [], giid = [], client = \<lparr>respond = net, sent = []\<rparr>\<rparr>"

definition NewWithGIID :: "(request list \<Rightarrow> request \<Rightarrow> error + response) \<Rightarrow> string \<Rightarrow> Verisure" where
  "NewWithGIID net g = (New net)\<lparr>giid := g\<rparr>"

subsection \<open>Session Manager\<close>

definition authenticate :: "'o lib \<Rightarrow> Verisure \<Rightarrow> string \<Rightarrow> string \<Rightarrow> error option \<times> Verisure" where
  "authenticate L v username password =
     (case newRequest L ''POST'' (baseURL v @ ''/cookie'') None of
        Inl err \<Rightarrow> (Some err, v)
      | Inr req \<Rightarrow>
          (case Do (client v) (SetBasicAuth req (''CPE/'' @ username) password) of
             (Inl err, c) \<Rightarrow> (Some err, v\<lparr>client := c\<rparr>)
           | (Inr res, c) \<Rightarrow>
               if StatusCode res \<noteq> 200
               then (Some (StatusError ''login'' (StatusCode res) (Status res)), v\<lparr>client := c\<rparr>)
               else (None, v\<lparr>client := c\<rparr>)))"

text \<open>The loop of \<open>tryURLs\<close>: \<open>err\<close> is the loop's variable, the list is what is left of
  \<open>apiURLs\<close>; \<open>break\<close> leaves with the \<open>nil\<close> just assigned.\<close>

fun tryURLs_loop ::
  "'o lib \<Rightarrow> string list \<Rightarrow> error option \<Rightarrow> Verisure \<Rightarrow> string \<Rightarrow> string \<Rightarrow> error option \<times> Verisure" where
  "tryURLs_loop L [] err v username password = (err, v)"
| "tryURLs_loop L (u # us) err v username password =
     (case authenticate L (v\<lparr>baseURL := u\<rparr>) username password of
        (None, v') \<Rightarrow> (None, v')
      | (Some err', v') \<Rightarrow> tryURLs_loop L us (Some err') v' username password)"

text \<open>\<open>urls\<close> is the value of the package variable \<open>apiURLs\<close> when the call is made.\<close>

definition tryURLs :: "'o lib \<Rightarrow> string list \<Rightarrow> Verisure \<Rightarrow> string \<Rightarrow> string \<Rightarrow> error option \<times> Verisure" where
  "tryURLs L urls v username password = tryURLs_loop L urls None v username password"

text \<open>The nesting of a document: the greatest number of arrays and objects open at one
  point of its text. The scanner of \<open>encoding/json\<close> refuses a document as soon as more
  than \<open>maxNestingDepth\<close> are open.\<close>

fun nesting :: "json \<Rightarrow> nat" where
  "nesting (JArray xs) = Suc (fold max (map nesting xs) 0)"
| "nesting (JObject kvs) = Suc (fold max (map (\<lambda>kv. nesting (snd kv)) kvs) 0)"
| "nesting j = 0"

definition maxNestingDepth :: nat where
  "maxNestingDepth = 10000"

text \<open>The numbers of a document, in the order of its text. Decoding a value into
  \<open>interface{}\<close> converts every number in it with \<open>strconv.ParseFloat\<close>; the decoder
  keeps the first failure, as \<open>UnmarshalTypeError\<close> with the value "number" followed by the
  literal, goes on, and returns it at the end.\<close>

fun numbers :: "json \<Rightarrow> string list" where
  "numbers (JNumber n) = [n]"
| "numbers (JArray xs) = concat (map numbers xs)"
| "numbers (JObject kvs) = concat (map (\<lambda>kv. numbers (snd kv)) kvs)"
| "numbers j = []"

definition convertNumbers :: "'o lib \<Rightarrow> json \<Rightarrow> error option" where
  "convertNumbers L j =
     (case filter (\<lambda>n. strconv_ParseFloat L n \<noteq> None) (numbers j) of
        [] \<Rightarrow> None
      | n # _ \<Rightarrow> Some (UnmarshalTypeError (''number '' @ n)))"

text \<open>Decoding into \<open>[]map[string]interface{}\<close>: \<open>null\<close> gives the nil slice or the nil
  map (every key reads as \<open>nil\<close>), an object gives a map in which a later member replaces
  an earlier one of the same key, provided its numbers convert, and anything else is a
  type error, its content skipped. The elements are decoded in order and the first error
  is the one returned.\<close>

fun Decode_map :: "'o lib \<Rightarrow> json \<Rightarrow> error + (string \<rightharpoonup> json)" where
  "Decode_map L (JObject kvs) =
     (case convertNumbers L (JObject kvs) of
        Some err \<Rightarrow> Inl err
      | None \<Rightarrow> Inr (map_of (rev kvs)))"
| "Decode_map L JNull = Inr Map.empty"
| "Decode_map L (JBool b) = Inl (UnmarshalTypeError ''bool'')"
| "Decode_map L (JNumber n) = Inl (UnmarshalTypeError ''number'')"
| "Decode_map L (JString s) = Inl (UnmarshalTypeError ''string'')"
| "Decode_map L (JArray xs) = Inl (UnmarshalTypeError ''array'')"

fun Decode_maps :: "'o lib \<Rightarrow> json list \<Rightarrow> error + (string \<rightharpoonup> json) list" where
  "Decode_maps L [] = Inr []"
| "Decode_maps L (x # xs) =
     (case Decode_map L x of
        Inl err \<Rightarrow> Inl err
      | Inr m \<Rightarrow> (case Decode_maps L xs of Inl err \<Rightarrow> Inl err | Inr ms \<Rightarrow> Inr (m # ms)))"

fun Unmarshal_result :: "'o lib \<Rightarrow> json \<Rightarrow> error + (string \<rightharpoonup> json) list" where
  "Unmarshal_result L (JArray xs) = Decode_maps L xs"
| "Unmarshal_result L JNull = Inr []"
| "Unmarshal_result L (JBool b) = Inl (UnmarshalTypeError ''bool'')"
| "Unmarshal_result L (JNumber n) = Inl (UnmarshalTypeError ''number'')"
| "Unmarshal_result L (JString s) = Inl (UnmarshalTypeError ''string'')"
| "Unmarshal_result L (JObject kvs) = Inl (UnmarshalTypeError ''object'')"

text \<open>\<open>json.NewDecoder(rc).Decode(&result)\<close>: the value is read whole first, which fails
  on a body that cannot be read and on one nested too deep, and is decoded afterwards.\<close>

fun Decode_result :: "'o lib \<Rightarrow> error + json \<Rightarrow> error + (string \<rightharpoonup> json) list" where
  "Decode_result L (Inl err) = Inl err"
| "Decode_result L (Inr j) =
     (if maxNestingDepth < nesting j then Inl (LibError ''exceeded max depth'')
      else Unmarshal_result L j)"

text \<open>The function \<open>giid\<close> of the source (the field of that name keeps the name). On
  every error return the string result is the empty string, so the pair is a sum.\<close>

definition giid_rc :: "'o lib \<Rightarrow> error + json \<Rightarrow> error + string" where
  "giid_rc L rc =
     (case Decode_result L rc of
        Inl err \<Rightarrow> Inl err
      | Inr result \<Rightarrow>
          if length result < 1 then Inl (Errorf ''no installations found'')
          else (case (result ! 0) ''giid'' of
                  Some (JString s) \<Rightarrow> Inr s
                | _ \<Rightarrow> Inl (Errorf ''no giid found'')))"

definition installation :: "'o lib \<Rightarrow> Verisure \<Rightarrow> string \<Rightarrow> (error + string) \<times> Verisure" where
  "installation L v username =
     (case newRequest L ''GET'' (baseURL v @ ''/installation/search?email='' @ username) None of
        Inl err \<Rightarrow> (Inl err, v)
      | Inr req \<Rightarrow>
          (case Do (client v) req of
             (Inl err, c) \<Rightarrow> (Inl err, v\<lparr>client := c\<rparr>)
           | (Inr res, c) \<Rightarrow>
               if StatusCode res \<noteq> 200
               then (Inl (StatusError ''installations'' (StatusCode res) (Status res)), v\<lparr>client := c\<rparr>)
               else (giid_rc L (Body res), v\<lparr>client := c\<rparr>)))"

definition Login :: "'o lib \<Rightarrow> string list \<Rightarrow> Verisure \<Rightarrow> string \<Rightarrow> string \<Rightarrow> error option \<times> Verisure" where
  "Login L urls v username password =
     (case tryURLs L urls v username password of
        (Some err, v1) \<Rightarrow> (Some err, v1)
      | (None, v1) \<Rightarrow>
          (case installation L v1 username of
             (Inl err, v2) \<Rightarrow> (Some err, v2)
           | (Inr g, v2) \<Rightarrow> (None, v2\<lparr>giid := g\<rparr>)))"

subsection \<open>Resource Client\<close>

definition Logout :: "'o lib \<Rightarrow> Verisure \<Rightarrow> error option \<times> Verisure" where
  "Logout L v =
     (case http_NewRequest L ''DELETE'' (baseURL v @ ''/cookie'') None of
        Inl err \<Rightarrow> (Some err, v)
      | Inr req \<Rightarrow>
          (case Do (client v) req of
             (Inl err, c) \<Rightarrow> (Some err, v\<lparr>client := c\<rparr>)
           | (Inr res, c) \<Rightarrow>
               if StatusCode res \<noteq> 200
               then (Some (StatusError ''logout'' (StatusCode res) (Status res)), v\<lparr>client := c\<rparr>)
               else (None, v\<lparr>client := c\<rparr>)))"

text \<open>\<open>Decode(&o)\<close> leaves \<open>o\<close> as it is when the body cannot be read as JSON.\<close>

definition Overview :: "'o lib \<Rightarrow> Verisure \<Rightarrow> ('o \<times> error option) \<times> Verisure" where
  "Overview L v =
     (case newRequest L ''GET'' (baseURL v @ ''/installation/'' @ giid v @ ''/overview'') None of
        Inl err \<Rightarrow> ((Overview_zero L, Some err), v)
      | Inr req \<Rightarrow>
          (case Do (client v) req of
             (Inl err, c) \<Rightarrow> ((Overview_zero L, Some err), v\<lparr>client := c\<rparr>)
           | (Inr res, c) \<Rightarrow>
               if StatusCode res \<noteq> 200
               then ((Overview_zero L, Some (StatusError ''overview'' (StatusCode res) (Status res))),
                     v\<lparr>client := c\<rparr>)
               else (case Body res of
                       Inl err \<Rightarrow> ((Overview_zero L, Some err), v\<lparr>client := c\<rparr>)
                     | Inr j \<Rightarrow> (Overview_Unmarshal L j, v\<lparr>client := c\<rparr>))))"

definition UpdateSmartplug :: "'o lib \<Rightarrow> Verisure \<Rightarrow> SmartPlugState list \<Rightarrow> error option \<times> Verisure" where
  "UpdateSmartplug L v updates =
     (case json_Marshal L updates of
        Inl err \<Rightarrow> (Some err, v)
      | Inr bs \<Rightarrow>
          (case newRequest L ''POST'' (baseURL v @ ''/installation/'' @ giid v @ ''/smartplug/state'') (Some bs) of
             Inl err \<Rightarrow> (Some err, v)
           | Inr req \<Rightarrow>
               (case Do (client v) req of
                  (Inl err, c) \<Rightarrow> (Some err, v\<lparr>client := c\<rparr>)
                | (Inr res, c) \<Rightarrow>
                    if StatusCode res \<noteq> 200
                    then (Some (StatusError ''smartplug'' (StatusCode res) (Status res)), v\<lparr>client := c\<rparr>)
                    else (None, v\<lparr>client := c\<rparr>))))"

subsection \<open>The first text of the package (lines 1-303)\<close>

record installation_1 =
  GIID :: string
  FirmwareVersion :: int
  RoutingGroup :: string
  Shard :: int
  Locale :: string
  SignalFilterID :: int
  Deleted :: bool
  CID :: string
  Street :: string
  StreetNo1 :: string
  StreetNo2 :: string
  Alias :: string

record Verisure_1 =
  baseURL_1 :: string
  client_1 :: http_Client
  installations :: "installation_1 list"

definition New_1 :: "(request list \<Rightarrow> request \<Rightarrow> error + response) \<Rightarrow> Verisure_1" where
  "New_1 net = \<lparr>baseURL_1 = [], client_1 = \<lparr>respond = net, sent = []\<rparr>, installations = []\<rparr>"

text \<open>\<open>v.installations[0]\<close> is evaluated first, to build the URL: on an empty slice the
  run-time system panics with an index out of range.\<close>

definition Overview_1 :: "'o lib \<Rightarrow> Verisure_1 \<Rightarrow> (('o \<times> error option) \<times> Verisure_1) go" where
  "Overview_1 L v =
     (case installations v of
        [] \<Rightarrow> Panic ''index out of range [0] with length 0''
      | i0 # _ \<Rightarrow>
          Return
            (case newRequest L ''GET'' (baseURL_1 v @ ''/installation/'' @ GIID i0 @ ''/overview'') None of
               Inl err \<Rightarrow> ((Overview_zero L, Some err), v)
             | Inr req \<Rightarrow>
                 (case Do (client_1 v) req of
                    (Inl err, c) \<Rightarrow> ((Overview_zero L, Some err), v\<lparr>client_1 := c\<rparr>)
                  | (Inr res, c) \<Rightarrow>
                      if StatusCode res \<noteq> 200
                      then ((Overview_zero L, Some (StatusError ''overview'' (StatusCode res) (Status res))),
                            v\<lparr>client_1 := c\<rparr>)
                      else (case Body res of
                              Inl err \<Rightarrow> ((Overview_zero L, Some err), v\<lparr>client_1 := c\<rparr>)
                            | Inr j \<Rightarrow> (Overview_Unmarshal L j, v\<lparr>client_1 := c\<rparr>)))))"

subsection \<open>Vocabulary of the properties\<close>

text \<open>The request \<open>authenticate\<close> builds for the endpoint \<open>u\<close>, and the request
  \<open>installation\<close> builds for it.\<close>

definition auth_request :: "string \<Rightarrow> string \<Rightarrow> string \<Rightarrow> request" where
  "auth_request username password u =
     \<lparr>Method = ''POST'', URL = u @ ''/cookie'',
      Header = [(''Accept'', ''application/json''), (''Content-Type'', ''application/json'')],
      BasicAuth = Some (''CPE/'' @ username, password), Content = None\<rparr>"

definition search_request :: "string \<Rightarrow> string \<Rightarrow> request" where
  "search_request u username =
     \<lparr>Method = ''GET'', URL = u @ ''/installation/search?email='' @ username,
      Header = [(''Accept'', ''application/json''), (''Content-Type'', ''application/json'')],
      BasicAuth = None, Content = None\<rparr>"

text \<open>The endpoints of \<open>us\<close> whose authentication URL parses: for the others
  \<open>newRequest\<close> fails and nothing is sent.\<close>

definition attempted :: "'o lib \<Rightarrow> string list \<Rightarrow> string list" where
  "attempted L us = filter (\<lambda>u. url_Parse L (u @ ''/cookie'') = None) us"

text \<open>What the client has sent once the endpoints \<open>us\<close> have been tried in order,
  starting from the state \<open>v\<close>.\<close>

definition history :: "'o lib \<Rightarrow> Verisure \<Rightarrow> string \<Rightarrow> string \<Rightarrow> string list \<Rightarrow> request list" where
  "history L v username password us =
     sent (client v) @ map (auth_request username password) (attempted L us)"

text \<open>Authentication at the endpoint \<open>u\<close>, asked after the requests \<open>h\<close>, is answered
  with HTTP 200.\<close>

definition auth_200 :: "'o lib \<Rightarrow> Verisure \<Rightarrow> string \<Rightarrow> string \<Rightarrow> request list \<Rightarrow> string \<Rightarrow> bool" where
  "auth_200 L v username password h u =
     (url_Parse L (u @ ''/cookie'') = None \<and>
      (case respond (client v) h (auth_request username password u) of
         Inl err \<Rightarrow> False
       | Inr res \<Rightarrow> StatusCode res = 200))"


subsection \<open>Concrete libraries and networks for the examples\<close>

text \<open>A library in which every URL parses, the encoder succeeds and every number converts
  but \<open>1e400\<close>, which is beyond the range of a \<open>float64\<close>.\<close>

definition lib_ok :: "unit lib" where
  "lib_ok = \<lparr>url_Parse = (\<lambda>s. None), json_Marshal = (\<lambda>us. Inr ''[]''),
            strconv_ParseFloat = (\<lambda>n. if n = ''1e400'' then Some (LibError ''value out of range'') else None),
            Overview_zero = (), Overview_Unmarshal = (\<lambda>j. ((), None))\<rparr>"

definition lib_no_marshal :: "unit lib" where
  "lib_no_marshal = lib_ok\<lparr>json_Marshal := (\<lambda>us. Inl (LibError ''json: unsupported value''))\<rparr>"

definition unauthorized :: response where
  "unauthorized = \<lparr>StatusCode = 401, Status = ''401 Unauthorized'', Body = Inr (JObject [])\<rparr>"

definition ok_with :: "json \<Rightarrow> response" where
  "ok_with j = \<lparr>StatusCode = 200, Status = ''200 OK'', Body = Inr j\<rparr>"

text \<open>A network that refuses every request.\<close>

definition net_refuse :: "request list \<Rightarrow> request \<Rightarrow> error + response" where
  "net_refuse h r = Inr unauthorized"

text \<open>A network whose first endpoint refuses the credentials and whose other endpoints
  answer every request with 200 and the document \<open>j\<close>.\<close>

definition net_second :: "json \<Rightarrow> request list \<Rightarrow> request \<Rightarrow> error + response" where
  "net_second j h r =
     (if URL r = ''https://e-api01.verisure.com/xbn/2/cookie'' then Inr unauthorized
      else Inr (ok_with j))"


definition two_installations :: json where
  "two_installations =
     JArray [JObject [(''giid'', JString ''ABC123''), (''other'', JNumber ''1'')],
             JObject [(''giid'', JString ''ZZZ999'')]]"

section \<open>Properties\<close>

subsection \<open>Normal forms of the operations\<close>

lemma newRequest_eq:
  "newRequest L m url body =
     (case url_Parse L url of
        Some err \<Rightarrow> Inl err
      | None \<Rightarrow> Inr \<lparr>Method = m, URL = url,
                      Header = [(''Accept'', ''application/json''), (''Content-Type'', ''application/json'')],
                      BasicAuth = None, Content = body\<rparr>)"
  by (simp add: newRequest_def http_NewRequest_def Header_Add_def mediaType_def split: option.splits)

lemma authenticate_eq:
  "authenticate L v user pass =
     (case url_Parse L (baseURL v @ ''/cookie'') of
        Some err \<Rightarrow> (Some err, v)
      | None \<Rightarrow>
          (case respond (client v) (sent (client v)) (auth_request user pass (baseURL v)) of
             Inl err \<Rightarrow> Some err
           | Inr res \<Rightarrow>
               if StatusCode res \<noteq> 200
               then Some (StatusError ''login'' (StatusCode res) (Status res)) else None,
           v\<lparr>client := (client v)\<lparr>sent := sent (client v) @ [auth_request user pass (baseURL v)]\<rparr>\<rparr>))"
proof (cases "url_Parse L (baseURL v @ ''/cookie'')")
  case None
  then show ?thesis
    by (cases "respond (client v) (sent (client v)) (auth_request user pass (baseURL v))")
       (simp_all add: authenticate_def newRequest_eq SetBasicAuth_def Do_def auth_request_def)
next
  case (Some err)
  then show ?thesis by (simp add: authenticate_def newRequest_eq)
qed

lemma authenticate_snd:
  "snd (authenticate L v user pass) =
     v\<lparr>client := (client v)\<lparr>sent := history L v user pass [baseURL v]\<rparr>\<rparr>"
  by (simp add: authenticate_eq history_def attempted_def split: option.splits)

lemma authenticate_ok_iff:
  "fst (authenticate L v user pass) = None \<longleftrightarrow>
     auth_200 L v user pass (sent (client v)) (baseURL v)"
  by (simp add: authenticate_eq auth_200_def split: sum.splits option.splits)

lemma installation_eq:
  "installation L v username =
     (case url_Parse L (baseURL v @ ''/installation/search?email='' @ username) of
        Some err \<Rightarrow> (Inl err, v)
      | None \<Rightarrow>
          (case respond (client v) (sent (client v)) (search_request (baseURL v) username) of
             Inl err \<Rightarrow> Inl err
           | Inr res \<Rightarrow>
               if StatusCode res \<noteq> 200
               then Inl (StatusError ''installations'' (StatusCode res) (Status res))
               else giid_rc L (Body res),
           v\<lparr>client := (client v)\<lparr>sent := sent (client v) @ [search_request (baseURL v) username]\<rparr>\<rparr>))"
proof (cases "url_Parse L (baseURL v @ ''/installation/search?email='' @ username)")
  case None
  then show ?thesis
    by (cases "respond (client v) (sent (client v)) (search_request (baseURL v) username)")
       (simp_all add: installation_def newRequest_eq Do_def search_request_def)
next
  case (Some err)
  then show ?thesis by (simp add: installation_def newRequest_eq)
qed

lemma installation_baseURL: "baseURL (snd (installation L v username)) = baseURL v"
  by (simp add: installation_eq split: option.splits)

lemma installation_sent:
  "sent (client (snd (installation L v username))) =
     sent (client v) @
       (if url_Parse L (baseURL v @ ''/installation/search?email='' @ username) = None
        then [search_request (baseURL v) username] else [])"
  by (simp add: installation_eq split: option.splits)

subsection \<open>The identifier is only written by a successful Login\<close>

lemma authenticate_giid: "giid (snd (authenticate L v u p)) = giid v"
  by (simp add: authenticate_def Do_def split: sum.splits prod.splits)

lemma tryURLs_loop_giid: "giid (snd (tryURLs_loop L urls err v u p)) = giid v"
proof (induction urls arbitrary: err v)
  case Nil
  show ?case by simp
next
  case (Cons a urls)
  have g: "giid (snd (authenticate L (v\<lparr>baseURL := a\<rparr>) u p)) = giid v"
    by (simp add: authenticate_giid)
  show ?case
  proof (cases "authenticate L (v\<lparr>baseURL := a\<rparr>) u p")
    case (Pair e v')
    with g have "giid v' = giid v" by simp
    with Pair Cons.IH show ?thesis by (cases e) simp_all
  qed
qed

lemma installation_giid: "giid (snd (installation L v u)) = giid v"
  by (simp add: installation_def Do_def split: sum.splits prod.splits)

lemma failed_Login_giid:
  "fst (Login L urls v u p) = Some e \<Longrightarrow> giid (snd (Login L urls v u p)) = giid v"
proof -
  assume a: "fst (Login L urls v u p) = Some e"
  obtain r v1 where t: "tryURLs L urls v u p = (r, v1)" by (cases "tryURLs L urls v u p")
  have g1: "giid v1 = giid v" using tryURLs_loop_giid[of L urls None v u p] t by (simp add: tryURLs_def)
  show ?thesis
  proof (cases r)
    case (Some e')
    with t g1 show ?thesis by (simp add: Login_def)
  next
    case None
    obtain q v2 where i: "installation L v1 u = (q, v2)" by (cases "installation L v1 u")
    have g2: "giid v2 = giid v1" using installation_giid[of L v1 u] i by simp
    show ?thesis
    proof (cases q)
      case (Inl x)
      with None t i g1 g2 show ?thesis by (simp add: Login_def)
    next
      case (Inr g)
      with None t i a show ?thesis by (simp add: Login_def)
    qed
  qed
qed

subsection \<open>The loop over the endpoints\<close>

lemma history_Nil [simp]: "history L v user pass [] = sent (client v)"
  by (simp add: history_def attempted_def)

lemma history_step:
  "history L (v\<lparr>baseURL := b, client := (client v)\<lparr>sent := history L v user pass [u]\<rparr>\<rparr>) user pass us
     = history L v user pass (u # us)"
  by (simp add: history_def attempted_def)

lemma auth_200_respond:
  "respond (client v') = respond (client v) \<Longrightarrow> auth_200 L v' user pass = auth_200 L v user pass"
  by (simp add: auth_200_def fun_eq_iff)

lemma tryURLs_loop_first_success:
  assumes "k < length urls"
    and "\<forall>i<k. \<not> auth_200 L v user pass (history L v user pass (take i urls)) (urls ! i)"
    and "auth_200 L v user pass (history L v user pass (take k urls)) (urls ! k)"
  shows "tryURLs_loop L urls err v user pass =
           (None, v\<lparr>baseURL := urls ! k,
                    client := (client v)\<lparr>sent := history L v user pass (take (Suc k) urls)\<rparr>\<rparr>)"
  using assms
proof (induction urls arbitrary: k v err)
  case Nil
  then show ?case by simp
next
  case (Cons u us)
  let ?w = "v\<lparr>baseURL := u\<rparr>"
  let ?v' = "v\<lparr>baseURL := u, client := (client v)\<lparr>sent := history L v user pass [u]\<rparr>\<rparr>"
  have s: "snd (authenticate L ?w user pass) = ?v'"
    by (simp add: authenticate_snd history_def)
  have f: "fst (authenticate L ?w user pass) = None \<longleftrightarrow> auth_200 L v user pass (sent (client v)) u"
    using auth_200_respond[of ?w v L user pass] by (simp add: authenticate_ok_iff)
  show ?case
  proof (cases k)
    case 0
    with Cons.prems have "auth_200 L v user pass (sent (client v)) u" by simp
    with f have "fst (authenticate L ?w user pass) = None" by simp
    with s have "authenticate L ?w user pass = (None, ?v')" by (metis prod.collapse)
    with 0 show ?thesis by simp
  next
    case (Suc j)
    with Cons.prems have "\<not> auth_200 L v user pass (sent (client v)) u" by fastforce
    with f obtain e where "fst (authenticate L ?w user pass) = Some e" by auto
    with s have a: "authenticate L ?w user pass = (Some e, ?v')" by (metis prod.collapse)
    have r: "auth_200 L ?v' user pass = auth_200 L v user pass"
      by (rule auth_200_respond) simp
    have h: "\<And>xs. history L ?v' user pass xs = history L v user pass (u # xs)"
      by (rule history_step)
    have j: "j < length us" using Cons.prems Suc by simp
    have p1: "\<forall>i<j. \<not> auth_200 L ?v' user pass (history L ?v' user pass (take i us)) (us ! i)"
    proof (intro allI impI)
      fix i assume "i < j"
      then have "Suc i < k" using Suc by simp
      with Cons.prems(2) have "\<not> auth_200 L v user pass (history L v user pass (take (Suc i) (u # us))) ((u # us) ! Suc i)"
        by blast
      then show "\<not> auth_200 L ?v' user pass (history L ?v' user pass (take i us)) (us ! i)"
        by (simp add: r h)
    qed
    have p2: "auth_200 L ?v' user pass (history L ?v' user pass (take j us)) (us ! j)"
      using Cons.prems(3) Suc by (simp add: r h)
    have "tryURLs_loop L us (Some e) ?v' user pass =
           (None, ?v'\<lparr>baseURL := us ! j,
                    client := (client ?v')\<lparr>sent := history L ?v' user pass (take (Suc j) us)\<rparr>\<rparr>)"
      by (rule Cons.IH[OF j p1 p2])
    with a Suc show ?thesis by (simp add: h)
  qed
qed

lemma tryURLs_loop_all_fail:
  assumes "\<forall>i<length urls. \<not> auth_200 L v user pass (history L v user pass (take i urls)) (urls ! i)"
    and "urls \<noteq> []"
  shows "tryURLs_loop L urls err v user pass =
           (fst (authenticate L (v\<lparr>baseURL := last urls,
                    client := (client v)\<lparr>sent := history L v user pass (butlast urls)\<rparr>\<rparr>) user pass),
            v\<lparr>baseURL := last urls,
              client := (client v)\<lparr>sent := history L v user pass urls\<rparr>\<rparr>)
         \<and> fst (tryURLs_loop L urls err v user pass) \<noteq> None"
  using assms
proof (induction urls arbitrary: v err)
  case Nil
  then show ?case by simp
next
  case (Cons u us)
  let ?w = "v\<lparr>baseURL := u\<rparr>"
  let ?v' = "v\<lparr>baseURL := u, client := (client v)\<lparr>sent := history L v user pass [u]\<rparr>\<rparr>"
  have s: "snd (authenticate L ?w user pass) = ?v'"
    by (simp add: authenticate_snd history_def)
  have f: "fst (authenticate L ?w user pass) = None \<longleftrightarrow> auth_200 L v user pass (sent (client v)) u"
    using auth_200_respond[of ?w v L user pass] by (simp add: authenticate_ok_iff)
  from Cons.prems have "\<not> auth_200 L v user pass (sent (client v)) u" by fastforce
  with f obtain e where e: "fst (authenticate L ?w user pass) = Some e" by auto
  with s have a: "authenticate L ?w user pass = (Some e, ?v')" by (metis prod.collapse)
  have r: "auth_200 L ?v' user pass = auth_200 L v user pass"
    by (rule auth_200_respond) simp
  have h: "\<And>xs. history L ?v' user pass xs = history L v user pass (u # xs)"
    by (rule history_step)
  show ?case
  proof (cases "us = []")
    case True
    have "v\<lparr>baseURL := u, client := (client v)\<lparr>sent := sent (client v)\<rparr>\<rparr> = ?w" by simp
    with a e True show ?thesis by simp
  next
    case False
    have p1: "\<forall>i<length us. \<not> auth_200 L ?v' user pass (history L ?v' user pass (take i us)) (us ! i)"
    proof (intro allI impI)
      fix i assume "i < length us"
      then have "Suc i < length (u # us)" by simp
      with Cons.prems(1) have "\<not> auth_200 L v user pass (history L v user pass (take (Suc i) (u # us))) ((u # us) ! Suc i)"
        by blast
      then show "\<not> auth_200 L ?v' user pass (history L ?v' user pass (take i us)) (us ! i)"
        by (simp add: r h)
    qed
    note ih = Cons.IH[OF p1 False, of "Some e"]
    from ih have eq: "tryURLs_loop L us (Some e) ?v' user pass =
           (fst (authenticate L (v\<lparr>baseURL := last us,
                    client := (client v)\<lparr>sent := history L v user pass (u # butlast us)\<rparr>\<rparr>) user pass),
            v\<lparr>baseURL := last us,
              client := (client v)\<lparr>sent := history L v user pass (u # us)\<rparr>\<rparr>)"
      by (simp add: h)
    from ih have ne: "fst (tryURLs_loop L us (Some e) ?v' user pass) \<noteq> None" by blast
    from a False have st: "tryURLs_loop L (u # us) err v user pass = tryURLs_loop L us (Some e) ?v' user pass"
      by simp
    from ne st eq False show ?thesis by simp
  qed
qed

lemma Login_after_tryURLs:
  assumes "tryURLs L urls v username password = (None, v1)"
  shows "baseURL (snd (Login L urls v username password)) = baseURL v1"
    and "sent (client (snd (Login L urls v username password))) = sent (client (snd (installation L v1 username)))"
    and "fst (Login L urls v username password) =
           (case fst (installation L v1 username) of Inl err \<Rightarrow> Some err | Inr g \<Rightarrow> None)"
proof -
  obtain q v2 where i: "installation L v1 username = (q, v2)"
    by (cases "installation L v1 username")
  have b: "baseURL v2 = baseURL v1" using installation_baseURL[of L v1 username] i by simp
  from assms i b show "baseURL (snd (Login L urls v username password)) = baseURL v1"
    by (cases q) (simp_all add: Login_def)
  from assms i show "sent (client (snd (Login L urls v username password))) = sent (client (snd (installation L v1 username)))"
    by (cases q) (simp_all add: Login_def)
  from assms i show "fst (Login L urls v username password) =
           (case fst (installation L v1 username) of Inl err \<Rightarrow> Some err | Inr g \<Rightarrow> None)"
    by (cases q) (simp_all add: Login_def)
qed

lemma Login_tryURLs_error:
  assumes "tryURLs L urls v username password = (Some err, v1)"
  shows "Login L urls v username password = (Some err, v1)"
  using assms by (simp add: Login_def)

lemma tryURLs_fail_Login:
  assumes "urls \<noteq> []"
    and "\<forall>i<length urls. \<not> auth_200 L v username password (history L v username password (take i urls)) (urls ! i)"
  shows "Login L urls v username password =
           (fst (authenticate L (v\<lparr>baseURL := last urls,
                    client := (client v)\<lparr>sent := history L v username password (butlast urls)\<rparr>\<rparr>)
                  username password),
            v\<lparr>baseURL := last urls,
              client := (client v)\<lparr>sent := history L v username password urls\<rparr>\<rparr>)
       \<and> fst (Login L urls v username password) \<noteq> None
       \<and> baseURL (snd (Login L urls v username password)) = last urls"
proof -
  note a = tryURLs_loop_all_fail[OF assms(2) assms(1), of None]
  from a obtain e where e: "fst (tryURLs L urls v username password) = Some e"
    by (auto simp: tryURLs_def)
  let ?v1 = "v\<lparr>baseURL := last urls, client := (client v)\<lparr>sent := history L v username password urls\<rparr>\<rparr>"
  from a e have t: "tryURLs L urls v username password = (Some e, ?v1)"
    by (simp add: tryURLs_def)
  from a e have l: "fst (authenticate L (v\<lparr>baseURL := last urls,
                    client := (client v)\<lparr>sent := history L v username password (butlast urls)\<rparr>\<rparr>)
                  username password) = Some e"
    by (simp add: tryURLs_def)
  have "Login L urls v username password = (Some e, ?v1)"
    by (rule Login_tryURLs_error[OF t])
  with l show ?thesis by simp
qed

lemma attempted_all:
  "\<forall>u\<in>set us. url_Parse L (u @ ''/cookie'') = None \<Longrightarrow> attempted L us = us"
  by (simp add: attempted_def)

subsection \<open>Decoding the installation list\<close>





lemma installation_200:
  assumes "url_Parse L (baseURL v @ ''/installation/search?email='' @ username) = None"
    and "respond (client v) (sent (client v)) (search_request (baseURL v) username) = Inr res"
    and "StatusCode res = 200"
  shows "fst (installation L v username) = giid_rc L (Body res)"
  using assms by (simp add: installation_eq)

subsection \<open>Headers and requests of the resource operations\<close>

lemma newRequest_headers:
  "newRequest L m url body = Inr req \<Longrightarrow>
     (''Accept'', ''application/json'') \<in> set (Header req) \<and>
     (''Content-Type'', ''application/json'') \<in> set (Header req)"
  by (auto simp: newRequest_eq split: option.splits)

lemma Overview_sends:
  assumes "url_Parse L (baseURL v @ ''/installation/'' @ giid v @ ''/overview'') = None"
  shows "sent (client (snd (Overview L v))) =
           sent (client v) @
             [\<lparr>Method = ''GET'', URL = baseURL v @ ''/installation/'' @ giid v @ ''/overview'',
               Header = [(''Accept'', ''application/json''), (''Content-Type'', ''application/json'')],
               BasicAuth = None, Content = None\<rparr>]"
  using assms by (simp add: Overview_def newRequest_eq Do_def split: sum.splits)

section \<open>The claims\<close>

text \<open>
  C1. Let the endpoint at position \<open>k\<close> of the list be the first whose authentication is
  answered with HTTP 200: every earlier endpoint, asked after the requests that went out
  before it, fails (its URL does not parse, the transport fails, or the status is not 200).
  Then \<open>tryURLs\<close> returns no error, the endpoint field is the endpoint at \<open>k\<close>, and the
  client has sent, in list order, the authentication requests of the endpoints up to \<open>k\<close>
  and nothing to a later endpoint. \<open>Login\<close> keeps that endpoint and adds at most the
  installation search, addressed to the same endpoint.
\<close>

theorem Login_first_success:
  assumes "k < length urls"
    and "\<forall>i<k. \<not> auth_200 L v username password (history L v username password (take i urls)) (urls ! i)"
    and "auth_200 L v username password (history L v username password (take k urls)) (urls ! k)"
  shows "tryURLs L urls v username password =
           (None, v\<lparr>baseURL := urls ! k,
                    client := (client v)\<lparr>sent := history L v username password (take (Suc k) urls)\<rparr>\<rparr>)
       \<and> baseURL (snd (Login L urls v username password)) = urls ! k
       \<and> sent (client (snd (Login L urls v username password))) =
           history L v username password (take (Suc k) urls) @
             (if url_Parse L (urls ! k @ ''/installation/search?email='' @ username) = None
              then [search_request (urls ! k) username] else [])"
proof -
  let ?v1 = "v\<lparr>baseURL := urls ! k,
               client := (client v)\<lparr>sent := history L v username password (take (Suc k) urls)\<rparr>\<rparr>"
  have t: "tryURLs L urls v username password = (None, ?v1)"
    unfolding tryURLs_def by (rule tryURLs_loop_first_success[OF assms])
  have b: "baseURL (snd (Login L urls v username password)) = urls ! k"
    using Login_after_tryURLs(1)[OF t] by simp
  have s: "sent (client (snd (Login L urls v username password))) =
           history L v username password (take (Suc k) urls) @
             (if url_Parse L (urls ! k @ ''/installation/search?email='' @ username) = None
              then [search_request (urls ! k) username] else [])"
    using Login_after_tryURLs(2)[OF t] by (simp add: installation_sent)
  from t b s show ?thesis by blast
qed

text \<open>C1 on the two endpoints of the package: the first answers 401, the second 200.\<close>

theorem Login_first_success_witness:
  "tryURLs lib_ok apiURLs (New (net_second two_installations)) ''user'' ''secret'' =
     (None, \<lparr>baseURL = ''https://e-api02.verisure.com/xbn/2'', giid = [],
             client = \<lparr>respond = net_second two_installations,
                       sent = [auth_request ''user'' ''secret'' ''https://e-api01.verisure.com/xbn/2'',
                               auth_request ''user'' ''secret'' ''https://e-api02.verisure.com/xbn/2'']\<rparr>\<rparr>)
   \<and> baseURL (snd (Login lib_ok apiURLs (New (net_second two_installations)) ''user'' ''secret''))
       = ''https://e-api02.verisure.com/xbn/2''
   \<and> sent (client (snd (Login lib_ok apiURLs (New (net_second two_installations)) ''user'' ''secret''))) =
       [auth_request ''user'' ''secret'' ''https://e-api01.verisure.com/xbn/2'',
        auth_request ''user'' ''secret'' ''https://e-api02.verisure.com/xbn/2'',
        search_request ''https://e-api02.verisure.com/xbn/2'' ''user'']"
proof -
  let ?v = "New (net_second two_installations)"
  have h0: "(1::nat) < length apiURLs" by (simp add: apiURLs_def)
  have h1: "\<forall>i<1. \<not> auth_200 lib_ok ?v ''user'' ''secret''
              (history lib_ok ?v ''user'' ''secret'' (take i apiURLs)) (apiURLs ! i)"
    by (simp add: auth_200_def history_def attempted_def New_def net_second_def apiURLs_def
        lib_ok_def auth_request_def unauthorized_def)
  have h2: "auth_200 lib_ok ?v ''user'' ''secret''
              (history lib_ok ?v ''user'' ''secret'' (take 1 apiURLs)) (apiURLs ! 1)"
    by (simp add: auth_200_def history_def attempted_def New_def net_second_def apiURLs_def
        lib_ok_def auth_request_def ok_with_def)
  show ?thesis
    using Login_first_success[OF h0 h1 h2]
    by (simp add: history_def attempted_def New_def apiURLs_def lib_ok_def)
qed




text \<open>
  C3, as amended. When authentication fails on every endpoint of a non-empty list,
  \<open>Login\<close> returns the error of the attempt on the last endpoint, and the endpoint field
  holds the last endpoint of the list: each attempt overwrites the field and nothing
  restores it.
\<close>

theorem Login_all_fail:
  assumes "urls \<noteq> []"
    and "\<forall>i<length urls. \<not> auth_200 L v username password (history L v username password (take i urls)) (urls ! i)"
  shows "Login L urls v username password =
           (fst (authenticate L (v\<lparr>baseURL := last urls,
                    client := (client v)\<lparr>sent := history L v username password (butlast urls)\<rparr>\<rparr>)
                  username password),
            v\<lparr>baseURL := last urls,
              client := (client v)\<lparr>sent := history L v username password urls\<rparr>\<rparr>)
       \<and> fst (Login L urls v username password) \<noteq> None
       \<and> baseURL (snd (Login L urls v username password)) = last urls"
  by (rule tryURLs_fail_Login[OF assms])

text \<open>C3, amended, on a network that refuses both endpoints of the package.\<close>

theorem Login_all_fail_witness:
  "Login lib_ok apiURLs (New net_refuse) ''user'' ''secret'' =
     (Some (StatusError ''login'' 401 ''401 Unauthorized''),
      \<lparr>baseURL = ''https://e-api02.verisure.com/xbn/2'', giid = [],
       client = \<lparr>respond = net_refuse,
                 sent = [auth_request ''user'' ''secret'' ''https://e-api01.verisure.com/xbn/2'',
                         auth_request ''user'' ''secret'' ''https://e-api02.verisure.com/xbn/2'']\<rparr>\<rparr>)"
proof -
  let ?v = "New net_refuse"
  have h0: "apiURLs \<noteq> []" by (simp add: apiURLs_def)
  have h1: "\<forall>i<length apiURLs. \<not> auth_200 lib_ok ?v ''user'' ''secret''
              (history lib_ok ?v ''user'' ''secret'' (take i apiURLs)) (apiURLs ! i)"
    by (simp add: auth_200_def New_def net_refuse_def unauthorized_def)
  show ?thesis
    using Login_all_fail[OF h0 h1]
    by (simp add: authenticate_eq history_def attempted_def New_def apiURLs_def lib_ok_def
        net_refuse_def unauthorized_def)
qed

text \<open>
  C3 as stated fails: on a new client, whose endpoint field is empty, a \<open>Login\<close> refused by
  both endpoints leaves the second endpoint in the field.
\<close>

theorem Login_all_fail_counterexample:
  "fst (Login lib_ok apiURLs (New net_refuse) ''user'' ''secret'')
     = Some (StatusError ''login'' 401 ''401 Unauthorized'')
   \<and> baseURL (New net_refuse) = []
   \<and> baseURL (snd (Login lib_ok apiURLs (New net_refuse) ''user'' ''secret'')) \<noteq> baseURL (New net_refuse)
   \<and> baseURL (snd (Login lib_ok apiURLs (New net_refuse) ''user'' ''secret''))
       = ''https://e-api02.verisure.com/xbn/2''"
  by (simp add: Login_def tryURLs_def authenticate_eq New_def net_refuse_def apiURLs_def
      lib_ok_def unauthorized_def)

text \<open>
  C4. When authentication has succeeded and the installation search is answered with
  status 200 and the body \<open>[]\<close>, \<open>installation\<close> fails with "no installations found",
  \<open>Login\<close> returns that error, and the identifier field is what it was before the call: an
  unset identifier stays unset.
\<close>

theorem Login_no_installations:
  assumes "tryURLs L urls v username password = (None, v1)"
    and "url_Parse L (baseURL v1 @ ''/installation/search?email='' @ username) = None"
    and "respond (client v1) (sent (client v1)) (search_request (baseURL v1) username) = Inr res"
    and "StatusCode res = 200"
    and "Body res = Inr (JArray [])"
  shows "fst (installation L v1 username) = Inl (Errorf ''no installations found'')
       \<and> fst (Login L urls v username password) = Some (Errorf ''no installations found'')
       \<and> giid (snd (Login L urls v username password)) = giid v"
proof -
  have i: "fst (installation L v1 username) = Inl (Errorf ''no installations found'')"
    using installation_200[OF assms(2,3,4)] assms(5) by (simp add: giid_rc_def maxNestingDepth_def)
  have l: "fst (Login L urls v username password) = Some (Errorf ''no installations found'')"
    using Login_after_tryURLs(3)[OF assms(1)] i by simp
  have g: "giid (snd (Login L urls v username password)) = giid v"
    by (rule failed_Login_giid[OF l])
  from i l g show ?thesis by blast
qed

text \<open>C4 on a new client: the second endpoint accepts the credentials and lists nothing.\<close>

theorem Login_no_installations_witness:
  "fst (Login lib_ok apiURLs (New (net_second (JArray []))) ''user'' ''secret'')
     = Some (Errorf ''no installations found'')
   \<and> giid (snd (Login lib_ok apiURLs (New (net_second (JArray []))) ''user'' ''secret'')) = []"
proof -
  let ?v = "New (net_second (JArray []))"
  let ?v1 = "\<lparr>baseURL = ''https://e-api02.verisure.com/xbn/2'', giid = [],
             client = \<lparr>respond = net_second (JArray []),
                       sent = [auth_request ''user'' ''secret'' ''https://e-api01.verisure.com/xbn/2'',
                               auth_request ''user'' ''secret'' ''https://e-api02.verisure.com/xbn/2'']\<rparr>\<rparr>"
  have h1: "tryURLs lib_ok apiURLs ?v ''user'' ''secret'' = (None, ?v1)"
    by (simp add: tryURLs_def authenticate_eq New_def net_second_def apiURLs_def lib_ok_def
        unauthorized_def ok_with_def auth_request_def)
  have h2: "url_Parse lib_ok (baseURL ?v1 @ ''/installation/search?email='' @ ''user'') = None"
    by (simp add: lib_ok_def)
  have h3: "respond (client ?v1) (sent (client ?v1)) (search_request (baseURL ?v1) ''user'')
              = Inr (ok_with (JArray []))"
    by (simp add: net_second_def search_request_def)
  have h4: "StatusCode (ok_with (JArray [])) = 200" by (simp add: ok_with_def)
  have h5: "Body (ok_with (JArray [])) = Inr (JArray [])" by (simp add: ok_with_def)
  show ?thesis
    using Login_no_installations[OF h1 h2 h3 h4 h5] by (simp add: New_def)
qed

text \<open>
  C5. When every endpoint of the (non-empty) list answers its authentication request with
  a status other than 200, \<open>Login\<close> returns what \<open>tryURLs\<close> returns, which is an error,
  and the requests of the call are the authentication requests of the endpoints, each a
  POST to the endpoint's \<open>/cookie\<close>: \<open>installation\<close> is not reached and no search request
  goes out.
\<close>

theorem Login_all_non_200:
  assumes "urls \<noteq> []"
    and "\<forall>i<length urls. url_Parse L (urls ! i @ ''/cookie'') = None \<and>
           (\<exists>res. respond (client v)
                     (sent (client v) @ map (auth_request username password) (take i urls))
                     (auth_request username password (urls ! i)) = Inr res
                 \<and> StatusCode res \<noteq> 200)"
  shows "Login L urls v username password = tryURLs L urls v username password
       \<and> fst (Login L urls v username password) \<noteq> None
       \<and> sent (client (snd (Login L urls v username password))) =
           sent (client v) @ map (auth_request username password) urls
       \<and> (\<forall>r\<in>set (map (auth_request username password) urls).
             Method r = ''POST'' \<and> (\<exists>u\<in>set urls. URL r = u @ ''/cookie''))"
proof -
  have p: "\<forall>u\<in>set urls. url_Parse L (u @ ''/cookie'') = None"
    using assms(2) by (auto simp: in_set_conv_nth)
  have at: "\<And>i. attempted L (take i urls) = take i urls"
  proof -
    fix i
    have "\<forall>u\<in>set (take i urls). url_Parse L (u @ ''/cookie'') = None"
      using p by (meson in_set_takeD)
    then show "attempted L (take i urls) = take i urls" by (rule attempted_all)
  qed
  have f: "\<forall>i<length urls. \<not> auth_200 L v username password (history L v username password (take i urls)) (urls ! i)"
  proof (intro allI impI)
    fix i assume "i < length urls"
    with assms(2) obtain res where
      "respond (client v) (sent (client v) @ map (auth_request username password) (take i urls))
          (auth_request username password (urls ! i)) = Inr res" "StatusCode res \<noteq> 200"
      by blast
    then show "\<not> auth_200 L v username password (history L v username password (take i urls)) (urls ! i)"
      by (simp add: auth_200_def history_def at)
  qed
  note a = tryURLs_fail_Login[OF assms(1) f]
  note b = tryURLs_loop_all_fail[OF f assms(1), of None]
  have h: "history L v username password urls = sent (client v) @ map (auth_request username password) urls"
    by (simp add: history_def attempted_all[OF p])
  have 1: "Login L urls v username password = tryURLs L urls v username password"
    using a b by (simp add: tryURLs_def)
  have 2: "fst (Login L urls v username password) \<noteq> None" using a by blast
  have 3: "sent (client (snd (Login L urls v username password))) =
           sent (client v) @ map (auth_request username password) urls"
    using a h by simp
  have 4: "\<forall>r\<in>set (map (auth_request username password) urls).
             Method r = ''POST'' \<and> (\<exists>u\<in>set urls. URL r = u @ ''/cookie'')"
    by (auto simp: auth_request_def)
  from 1 2 3 4 show ?thesis by blast
qed

text \<open>C5 on a network that refuses both endpoints of the package.\<close>

theorem Login_all_non_200_witness:
  "fst (Login lib_ok apiURLs (New net_refuse) ''user'' ''secret'') \<noteq> None
   \<and> sent (client (snd (Login lib_ok apiURLs (New net_refuse) ''user'' ''secret''))) =
       [auth_request ''user'' ''secret'' ''https://e-api01.verisure.com/xbn/2'',
        auth_request ''user'' ''secret'' ''https://e-api02.verisure.com/xbn/2'']"
proof -
  let ?v = "New net_refuse"
  have h0: "apiURLs \<noteq> []" by (simp add: apiURLs_def)
  have h1: "\<forall>i<length apiURLs. url_Parse lib_ok (apiURLs ! i @ ''/cookie'') = None \<and>
           (\<exists>res. respond (client ?v)
                     (sent (client ?v) @ map (auth_request ''user'' ''secret'') (take i apiURLs))
                     (auth_request ''user'' ''secret'' (apiURLs ! i)) = Inr res
                 \<and> StatusCode res \<noteq> 200)"
    by (simp add: New_def net_refuse_def unauthorized_def lib_ok_def)
  note t = Login_all_non_200[OF h0 h1]
  from t have a: "fst (Login lib_ok apiURLs ?v ''user'' ''secret'') \<noteq> None" by blast
  from t have b: "sent (client (snd (Login lib_ok apiURLs ?v ''user'' ''secret''))) =
           sent (client ?v) @ map (auth_request ''user'' ''secret'') apiURLs" by blast
  have c: "sent (client ?v) @ map (auth_request ''user'' ''secret'') apiURLs =
       [auth_request ''user'' ''secret'' ''https://e-api01.verisure.com/xbn/2'',
        auth_request ''user'' ''secret'' ''https://e-api02.verisure.com/xbn/2'']"
    by (simp add: New_def apiURLs_def)
  from a b c show ?thesis by simp
qed

text \<open>
  C6. In the first text of the package \<open>New\<close> makes the slice \<open>installations\<close> empty and
  \<open>Overview\<close> reads its element 0 before it builds the request: on a new client the call
  panics with an index out of range, whatever the library and the network are, and no
  request is made. In the second text the same call hands its request to the client
  (\<open>Overview_sends\<close>).
\<close>

theorem Overview_1_New_panics:
  "Overview_1 L (New_1 net) = Panic ''index out of range [0] with length 0''"
  by (simp add: Overview_1_def New_1_def)

text \<open>
  C7. \<open>Logout\<close> builds its request with \<open>http.NewRequest\<close>, not with \<open>newRequest\<close>: the
  request of a successful logout carries no header at all, while every request built by
  \<open>newRequest\<close> carries both (\<open>newRequest_headers\<close>).
\<close>

theorem Logout_request_has_no_headers:
  "sent (client (snd (Logout lib_ok \<lparr>baseURL = ''https://e-api02.verisure.com/xbn/2'', giid = ''ABC123'',
                                     client = \<lparr>respond = net_second two_installations, sent = []\<rparr>\<rparr>)))
     = [\<lparr>Method = ''DELETE'', URL = ''https://e-api02.verisure.com/xbn/2/cookie'', Header = [],
         BasicAuth = None, Content = None\<rparr>]
   \<and> fst (Logout lib_ok \<lparr>baseURL = ''https://e-api02.verisure.com/xbn/2'', giid = ''ABC123'',
                          client = \<lparr>respond = net_second two_installations, sent = []\<rparr>\<rparr>) = None"
  by (simp add: Logout_def http_NewRequest_def Do_def lib_ok_def net_second_def ok_with_def)

text \<open>
  C8. \<open>Logout\<close> leaves the endpoint field and the identifier field as they were, whether it
  returns an error or not.
\<close>

theorem Logout_frame: "baseURL (snd (Logout L v)) = baseURL v \<and> giid (snd (Logout L v)) = giid v"
  by (simp add: Logout_def Do_def split: sum.splits prod.splits)

text \<open>C8 on a session whose logout is refused.\<close>

theorem Logout_frame_witness:
  "baseURL (snd (Logout lib_ok \<lparr>baseURL = ''https://e-api02.verisure.com/xbn/2'', giid = ''ABC123'',
                                client = \<lparr>respond = net_refuse, sent = []\<rparr>\<rparr>))
     = ''https://e-api02.verisure.com/xbn/2''
   \<and> giid (snd (Logout lib_ok \<lparr>baseURL = ''https://e-api02.verisure.com/xbn/2'', giid = ''ABC123'',
                                client = \<lparr>respond = net_refuse, sent = []\<rparr>\<rparr>)) = ''ABC123''"
  using Logout_frame[of lib_ok "\<lparr>baseURL = ''https://e-api02.verisure.com/xbn/2'', giid = ''ABC123'',
                                client = \<lparr>respond = net_refuse, sent = []\<rparr>\<rparr>"]
  by simp

text \<open>
  C9. When \<open>json.Marshal\<close> fails on the update list, \<open>UpdateSmartplug\<close> returns its error
  and leaves the client as it was, so that nothing has been sent; and when the call has
  sent something, serialization had succeeded and the one request sent carries the
  serialized bytes. \<open>json.Marshal\<close> is a parameter of the model: the package does not
  decide when it fails.
\<close>

theorem UpdateSmartplug_serialization_first:
  "(\<forall>err. json_Marshal L updates = Inl err \<longrightarrow> UpdateSmartplug L v updates = (Some err, v))
   \<and> (sent (client (snd (UpdateSmartplug L v updates))) \<noteq> sent (client v) \<longrightarrow>
        (\<exists>bs. json_Marshal L updates = Inr bs \<and>
              sent (client (snd (UpdateSmartplug L v updates))) =
                sent (client v) @
                  [\<lparr>Method = ''POST'',
                    URL = baseURL v @ ''/installation/'' @ giid v @ ''/smartplug/state'',
                    Header = [(''Accept'', ''application/json''), (''Content-Type'', ''application/json'')],
                    BasicAuth = None, Content = Some bs\<rparr>]))"
proof (cases "json_Marshal L updates")
  case (Inl err)
  then show ?thesis by (simp add: UpdateSmartplug_def)
next
  case (Inr bs)
  show ?thesis
  proof (cases "url_Parse L (baseURL v @ ''/installation/'' @ giid v @ ''/smartplug/state'')")
    case None
    with Inr show ?thesis
      by (simp add: UpdateSmartplug_def newRequest_eq Do_def split: sum.splits)
  next
    case (Some e)
    with Inr show ?thesis by (simp add: UpdateSmartplug_def newRequest_eq)
  qed
qed

text \<open>C9 with an encoder that fails, and with one that succeeds.\<close>

theorem UpdateSmartplug_serialization_first_witness:
  "UpdateSmartplug lib_no_marshal (New net_refuse) [\<lparr>DeviceLabel = ''X'', State = True\<rparr>]
     = (Some (LibError ''json: unsupported value''), New net_refuse)
   \<and> sent (client (snd (UpdateSmartplug lib_ok (New net_refuse) [\<lparr>DeviceLabel = ''X'', State = True\<rparr>])))
     = [\<lparr>Method = ''POST'', URL = ''/installation//smartplug/state'',
         Header = [(''Accept'', ''application/json''), (''Content-Type'', ''application/json'')],
         BasicAuth = None, Content = Some ''[]''\<rparr>]"
proof -
  let ?us = "[\<lparr>DeviceLabel = ''X'', State = True\<rparr>]"
  have m: "json_Marshal lib_no_marshal ?us = Inl (LibError ''json: unsupported value'')"
    by (simp add: lib_no_marshal_def)
  have 1: "UpdateSmartplug lib_no_marshal (New net_refuse) ?us
     = (Some (LibError ''json: unsupported value''), New net_refuse)"
    using UpdateSmartplug_serialization_first[of lib_no_marshal ?us "New net_refuse"] m by blast
  have n: "sent (client (snd (UpdateSmartplug lib_ok (New net_refuse) ?us))) \<noteq> sent (client (New net_refuse))"
    by (simp add: UpdateSmartplug_def newRequest_eq Do_def lib_ok_def New_def net_refuse_def unauthorized_def)
  have 2: "sent (client (snd (UpdateSmartplug lib_ok (New net_refuse) ?us)))
     = [\<lparr>Method = ''POST'', URL = ''/installation//smartplug/state'',
         Header = [(''Accept'', ''application/json''), (''Content-Type'', ''application/json'')],
         BasicAuth = None, Content = Some ''[]''\<rparr>]"
    using UpdateSmartplug_serialization_first[of lib_ok ?us "New net_refuse"] n
    by (auto simp: lib_ok_def New_def)
  from 1 2 show ?thesis by blast
qed

text \<open>
  C10. Whenever \<open>Login\<close> returns an error, the identifier field is what it was before the
  call.
\<close>

theorem Login_error_keeps_giid:
  "fst (Login L urls v username password) = Some e \<Longrightarrow>
     giid (snd (Login L urls v username password)) = giid v"
  by (rule failed_Login_giid)

text \<open>C10 on a client made by \<open>NewWithGIID\<close>: refused by both endpoints, and accepted by
  the second endpoint with an empty installation list.\<close>

theorem Login_error_keeps_giid_witness:
  "fst (Login lib_ok apiURLs (NewWithGIID net_refuse ''G1'') ''user'' ''secret'')
     = Some (StatusError ''login'' 401 ''401 Unauthorized'')
   \<and> giid (snd (Login lib_ok apiURLs (NewWithGIID net_refuse ''G1'') ''user'' ''secret'')) = ''G1''
   \<and> fst (Login lib_ok apiURLs (NewWithGIID (net_second (JArray [])) ''G1'') ''user'' ''secret'')
     = Some (Errorf ''no installations found'')
   \<and> giid (snd (Login lib_ok apiURLs (NewWithGIID (net_second (JArray [])) ''G1'') ''user'' ''secret'')) = ''G1''"
proof -
  have a: "fst (Login lib_ok apiURLs (NewWithGIID net_refuse ''G1'') ''user'' ''secret'')
     = Some (StatusError ''login'' 401 ''401 Unauthorized'')"
    by (simp add: Login_def tryURLs_def authenticate_eq NewWithGIID_def New_def net_refuse_def
        apiURLs_def lib_ok_def unauthorized_def)
  have b: "fst (Login lib_ok apiURLs (NewWithGIID (net_second (JArray [])) ''G1'') ''user'' ''secret'')
     = Some (Errorf ''no installations found'')"
    by (simp add: Login_def tryURLs_def authenticate_eq installation_eq giid_rc_def
        maxNestingDepth_def NewWithGIID_def New_def net_second_def apiURLs_def lib_ok_def unauthorized_def ok_with_def
        auth_request_def search_request_def)
  from a b Login_error_keeps_giid[OF a] Login_error_keeps_giid[OF b] show ?thesis
    by (simp add: NewWithGIID_def New_def)
qed

end
